theory Spec2Isabelle
  imports Complex_Main
begin

section \<open>Device memory and kernel launches\<close>

text \<open>
  A device buffer of \<open>float\<close> is a list of scalars; a device pointer \<open>p + off\<close> is the
  buffer together with the offset \<open>off\<close>. The buffers of one call are distinct
  allocations, so each is passed and returned as a value of its own. Sizes are natural
  numbers: the C++ \<open>int\<close> arithmetic on them is taken in the range where it does not
  overflow.

  The scalar type of \<open>forward\<close>, \<open>backward\<close> and \<open>update_params\<close> is left open. Each
  definition asks only for the operations its source uses (\<open>zero\<close>, \<open>one\<close>, \<open>plus\<close>,
  \<open>minus\<close>, \<open>times\<close> carry no laws), so a theorem at these sorts holds for every
  arithmetic, rounding or not; a theorem that needs algebraic laws says so in its sort,
  and is then a statement about exact arithmetic.
\<close>

text \<open>
  A launch \<open>kernel<<<numBlocks, blockSize>>>(...)\<close> runs the kernel body once for every
  pair of a block index and a thread index. The bodies of this file touch one cell of
  each array, the cell \<open>blockIdx * blockDim + threadIdx\<close>, so the threads do not
  interfere and are run one after the other in the order of the grid.
\<close>

definition launch :: "nat \<Rightarrow> nat \<Rightarrow> (nat \<Rightarrow> nat \<Rightarrow> nat \<Rightarrow> 'm \<Rightarrow> 'm) \<Rightarrow> 'm \<Rightarrow> 'm" where
  "launch numBlocks blockSize body mem =
     fold (\<lambda>(blockIdx, threadIdx). body blockIdx blockSize threadIdx)
       (List.product [0..<numBlocks] [0..<blockSize]) mem"

text \<open>
  \<open>cudaMalloc(&p, n * sizeof(T))\<close> hands out \<open>n\<close> cells and writes none of them: cell
  \<open>i\<close> holds \<open>garbage i\<close>, whatever the allocator left there.
\<close>

definition cudaMalloc :: "nat \<Rightarrow> (nat \<Rightarrow> 'a) \<Rightarrow> 'a list" where
  "cudaMalloc n garbage = map garbage [0..<n]"

text \<open>\<open>cudaMemcpy(dst + off, src, n * sizeof(float), cudaMemcpyDeviceToDevice)\<close>.\<close>

definition cudaMemcpy :: "'a list \<Rightarrow> nat \<Rightarrow> 'a list \<Rightarrow> nat \<Rightarrow> 'a list" where
  "cudaMemcpy dst off src n = fold (\<lambda>k d. d[off + k := src ! k]) [0..<n] dst"

text \<open>\<open>cudaMemset(buf, 0, n * sizeof(float))\<close>: all bytes zero, which is the float \<open>0\<close>.\<close>

definition cudaMemset0 :: "'a::zero list \<Rightarrow> nat \<Rightarrow> 'a list" where
  "cudaMemset0 buf n = fold (\<lambda>k b. b[k := 0]) [0..<n] buf"

section \<open>The cuBLAS routines the layer calls\<close>

datatype cublasOperation = CUBLAS_OP_N | CUBLAS_OP_T

text \<open>Element \<open>(r, c)\<close> of \<open>op(A)\<close> for a column-major matrix \<open>A\<close> with leading dimension \<open>lda\<close>.\<close>

definition op_elem :: "cublasOperation \<Rightarrow> 'a list \<Rightarrow> nat \<Rightarrow> nat \<Rightarrow> nat \<Rightarrow> 'a" where
  "op_elem tr A lda r c =
     (case tr of CUBLAS_OP_N \<Rightarrow> A ! (r + c * lda) | CUBLAS_OP_T \<Rightarrow> A ! (c + r * lda))"

text \<open>
  \<open>cublasSgemm(handle, transa, transb, m, n, k, &alpha, A, lda, B, ldb, &beta, C, ldc)\<close>:
  \<open>C = alpha * op(A) * op(B) + beta * C\<close> on the \<open>m\<close> by \<open>n\<close> block of \<open>C\<close>, column by
  column as the reference BLAS does; with \<open>beta = 0\<close> the old contents of \<open>C\<close> are not
  read. The inner product of a row of \<open>op(A)\<close> and a column of \<open>op(B)\<close> is accumulated
  from \<open>0\<close> in the order of the index. A leading dimension below the number of rows of
  its matrix (or below 1) is refused with \<open>CUBLAS_STATUS_INVALID_VALUE\<close> and nothing is
  computed; the layer does not look at the status.
\<close>

definition gemm_invalid ::
  "cublasOperation \<Rightarrow> cublasOperation \<Rightarrow> nat \<Rightarrow> nat \<Rightarrow> nat \<Rightarrow> nat \<Rightarrow> nat \<Rightarrow> nat \<Rightarrow> bool" where
  "gemm_invalid transa transb m n k lda ldb ldc \<longleftrightarrow>
     lda < max 1 (case transa of CUBLAS_OP_N \<Rightarrow> m | CUBLAS_OP_T \<Rightarrow> k) \<or>
     ldb < max 1 (case transb of CUBLAS_OP_N \<Rightarrow> k | CUBLAS_OP_T \<Rightarrow> n) \<or>
     ldc < max 1 m"

definition dot_acc :: "nat \<Rightarrow> (nat \<Rightarrow> 'a) \<Rightarrow> 'a::{zero,plus}" where
  "dot_acc k t = fold (\<lambda>l acc. acc + t l) [0..<k] 0"

definition cublasSgemm ::
  "cublasOperation \<Rightarrow> cublasOperation \<Rightarrow> nat \<Rightarrow> nat \<Rightarrow> nat \<Rightarrow> 'a::{zero,plus,times} \<Rightarrow>
   'a list \<Rightarrow> nat \<Rightarrow> 'a list \<Rightarrow> nat \<Rightarrow> 'a \<Rightarrow> 'a list \<Rightarrow> nat \<Rightarrow> 'a list" where
  "cublasSgemm transa transb m n k alpha A lda B ldb beta C ldc =
     (if gemm_invalid transa transb m n k lda ldb ldc then C
      else fold (\<lambda>(j, i) C.
             let temp = dot_acc k (\<lambda>l. op_elem transa A lda i l * op_elem transb B ldb l j)
             in C[i + j * ldc :=
                    (if beta = 0 then alpha * temp else alpha * temp + beta * C ! (i + j * ldc))])
        (List.product [0..<n] [0..<m]) C)"

text \<open>
  \<open>cublasSaxpy(handle, n, &alpha, x + xoff, 1, y, 1)\<close>: \<open>y[k] = alpha * x[k] + y[k]\<close> for
  \<open>k < n\<close> (both strides are 1 at every call of this file).
\<close>

definition cublasSaxpy :: "nat \<Rightarrow> 'a::{plus,times} \<Rightarrow> 'a list \<Rightarrow> nat \<Rightarrow> 'a list \<Rightarrow> 'a list" where
  "cublasSaxpy n alpha x xoff y = fold (\<lambda>k y. y[k := alpha * x ! (xoff + k) + y ! k]) [0..<n] y"

section \<open>The initialisation kernels\<close>

text \<open>
  A \<open>curandState\<close> is a value of an open type \<open>'g\<close>. The two device functions of cuRAND
  are parameters: \<open>curand_init seed sequence offset\<close> gives a fresh state, and
  \<open>curand_uniform\<close> gives a float and the advanced state.
\<close>

definition init_curand_states ::
  "(nat \<Rightarrow> nat \<Rightarrow> nat \<Rightarrow> 'g) \<Rightarrow> nat \<Rightarrow> nat \<Rightarrow> nat \<Rightarrow> nat \<Rightarrow> nat \<Rightarrow> 'g list \<Rightarrow> 'g list" where
  "init_curand_states curand_init seed n blockIdx blockDim threadIdx state =
     (let id' = blockIdx * blockDim + threadIdx
      in if id' < n then state[id' := curand_init seed id' 0] else state)"

definition init_weights ::
  "('g \<Rightarrow> real \<times> 'g) \<Rightarrow> nat \<Rightarrow> real \<Rightarrow> nat \<Rightarrow> nat \<Rightarrow> nat \<Rightarrow>
   real list \<times> 'g list \<Rightarrow> real list \<times> 'g list" where
  "init_weights curand_uniform size' scale blockIdx blockDim threadIdx mem =
     (let (weights', states) = mem;
          idx = blockIdx * blockDim + threadIdx
      in if idx < size'
         then let localState = states ! idx;
                  r = sqrt (6 / real size');
                  (u, localState) = curand_uniform localState
              in (weights'[idx := (u * 2 - 1) * r], states[idx := localState])
         else (weights', states))"

section \<open>The layer\<close>

record 'a FCLayer =
  input_size :: nat
  output_size :: nat
  weights :: "'a list"
  bias :: "'a list"
  grad_weights :: "'a list"
  grad_bias :: "'a list"

subsection \<open>Construction\<close>

text \<open>
  The five \<open>garbage\<close> arguments are the contents of the five blocks \<open>cudaMalloc\<close> hands
  out, in the order of the calls. The cuBLAS handle and the host generator hold no data of
  the layer; \<open>cudaFree(d_states)\<close> drops the temporary states.
\<close>

definition FCLayer_new ::
  "(nat \<Rightarrow> nat \<Rightarrow> nat \<Rightarrow> 'g) \<Rightarrow> ('g \<Rightarrow> real \<times> 'g) \<Rightarrow> nat \<Rightarrow> nat \<Rightarrow>
   (nat \<Rightarrow> real) \<Rightarrow> (nat \<Rightarrow> real) \<Rightarrow> (nat \<Rightarrow> real) \<Rightarrow> (nat \<Rightarrow> real) \<Rightarrow> (nat \<Rightarrow> 'g) \<Rightarrow>
   real FCLayer" where
  "FCLayer_new curand_init curand_uniform input_size' output_size'
       garbage_w garbage_b garbage_gw garbage_gb garbage_st =
     (let weights' = cudaMalloc (input_size' * output_size') garbage_w;
          bias' = cudaMalloc output_size' garbage_b;
          grad_weights' = cudaMalloc (input_size' * output_size') garbage_gw;
          grad_bias' = cudaMalloc output_size' garbage_gb;
          d_states = cudaMalloc (input_size' * output_size') garbage_st;
          blockSize = 256;
          numBlocks = (input_size' * output_size' + blockSize - 1) div blockSize;
          d_states = launch numBlocks blockSize
                       (init_curand_states curand_init 1234 (input_size' * output_size'))
                       d_states;
          (weights', d_states) =
             launch numBlocks blockSize
               (init_weights curand_uniform (input_size' * output_size')
                  (sqrt (2 / real input_size')))
               (weights', d_states);
          bias' = cudaMemset0 bias' output_size'
      in \<lparr>input_size = input_size', output_size = output_size',
          weights = weights', bias = bias',
          grad_weights = grad_weights', grad_bias = grad_bias'\<rparr>)"

subsection \<open>forward\<close>

definition forward :: "'a::{zero,one,plus,times} FCLayer \<Rightarrow> 'a list \<Rightarrow> 'a list \<Rightarrow> nat \<Rightarrow> 'a list" where
  "forward L input output batch_size =
     (let alpha = 1; beta = 0;
          output = cublasSgemm CUBLAS_OP_T CUBLAS_OP_N
                     (output_size L) batch_size (input_size L)
                     alpha (weights L) (input_size L) input (input_size L)
                     beta output (output_size L)
      in fold (\<lambda>i output. cudaMemcpy output (i * output_size L) (bias L) (output_size L))
           [0..<batch_size] output)"

subsection \<open>backward\<close>

text \<open>The result is the caller's \<open>grad_input\<close> buffer and the layer after the call.\<close>

definition backward ::
  "'a::{zero,one,plus,times} FCLayer \<Rightarrow> 'a list \<Rightarrow> 'a list \<Rightarrow> 'a list \<Rightarrow> nat \<Rightarrow> 'a list \<times> 'a FCLayer" where
  "backward L input grad_output grad_input batch_size =
     (let alpha = 1; beta = 0;
          grad_input = cublasSgemm CUBLAS_OP_N CUBLAS_OP_N
                         (input_size L) batch_size (output_size L)
                         alpha (weights L) (input_size L) grad_output (output_size L)
                         beta grad_input (input_size L);
          grad_weights' = cublasSgemm CUBLAS_OP_N CUBLAS_OP_T
                            (input_size L) (output_size L) batch_size
                            alpha input (input_size L) grad_output (output_size L)
                            beta (grad_weights L) (input_size L);
          grad_bias' = fold (\<lambda>i grad_bias.
                              cublasSaxpy (output_size L) alpha grad_output (i * output_size L) grad_bias)
                         [0..<batch_size] (grad_bias L)
      in (grad_input, L\<lparr>grad_weights := grad_weights', grad_bias := grad_bias'\<rparr>))"

subsection \<open>update_params\<close>

definition update_params_kernel ::
  "'a::{minus,times} list \<Rightarrow> nat \<Rightarrow> 'a \<Rightarrow> nat \<Rightarrow> nat \<Rightarrow> nat \<Rightarrow> 'a list \<Rightarrow> 'a list" where
  "update_params_kernel grads size' learning_rate blockIdx blockDim threadIdx params =
     (let idx = blockIdx * blockDim + threadIdx
      in if idx < size' then params[idx := params ! idx - learning_rate * grads ! idx]
         else params)"

definition update_params :: "'a::{minus,times} FCLayer \<Rightarrow> 'a \<Rightarrow> 'a FCLayer" where
  "update_params L learning_rate =
     (let blockSize = 256;
          numBlocks = (input_size L * output_size L + blockSize - 1) div blockSize;
          weights' = launch numBlocks blockSize
                       (update_params_kernel (grad_weights L) (input_size L * output_size L) learning_rate)
                       (weights L);
          numBlocks = (output_size L + blockSize - 1) div blockSize;
          bias' = launch numBlocks blockSize
                    (update_params_kernel (grad_bias L) (output_size L) learning_rate)
                    (bias L)
      in L\<lparr>weights := weights', bias := bias'\<rparr>)"

section \<open>Notions of the specification\<close>

text \<open>The four buffers of a layer have the sizes the constructor allocates.\<close>

definition layer_ok :: "'a FCLayer \<Rightarrow> bool" where
  "layer_ok L \<longleftrightarrow>
     length (weights L) = input_size L * output_size L \<and>
     length (bias L) = output_size L \<and>
     length (grad_weights L) = input_size L * output_size L \<and>
     length (grad_bias L) = output_size L"

text \<open>Column \<open>j\<close> of a column-major matrix with \<open>ld\<close> rows.\<close>

definition column :: "nat \<Rightarrow> 'a list \<Rightarrow> nat \<Rightarrow> 'a list" where
  "column ld M j = take ld (drop (j * ld) M)"

text \<open>
  Row \<open>k\<close> of the column-major matrix \<open>x\<close> with \<open>n\<close> rows, added onto \<open>v\<close> one column at
  a time from column \<open>0\<close> to column \<open>batch_size - 1\<close>, each step being the
  \<open>y = 1 * x + y\<close> of one \<open>cublasSaxpy\<close> call.
\<close>

definition add_columns :: "nat \<Rightarrow> nat \<Rightarrow> 'a::{one,plus,times} list \<Rightarrow> nat \<Rightarrow> 'a \<Rightarrow> 'a" where
  "add_columns n batch_size x k v = fold (\<lambda>j acc. 1 * x ! (j * n + k) + acc) [0..<batch_size] v"

section \<open>Floats with their special values\<close>

text \<open>
  The values of an IEEE 754 binary format that arithmetic on finite numbers does not see:
  the two zeros, the two infinities and NaN (one NaN, its payload is not kept). \<open>Fin 0\<close>
  is the positive zero. Products and sums of finite numbers are exact here, rounding to
  the format is left out; the rules for a zero, an infinity or NaN as operand, and for
  the sign of a zero result under round-to-nearest, are those of the standard. Equality
  of two values other than NaN is equality of their bits.
\<close>

datatype f32 = Fin real | NegZero | PosInf | NegInf | NaN

definition is_zero :: "f32 \<Rightarrow> bool" where
  "is_zero a \<longleftrightarrow> a = Fin 0 \<or> a = NegZero"

definition is_inf :: "f32 \<Rightarrow> bool" where
  "is_inf a \<longleftrightarrow> a = PosInf \<or> a = NegInf"

definition is_finite :: "f32 \<Rightarrow> bool" where
  "is_finite a \<longleftrightarrow> (case a of Fin x \<Rightarrow> True | NegZero \<Rightarrow> True | _ \<Rightarrow> False)"

definition sign_bit :: "f32 \<Rightarrow> bool" where
  "sign_bit a = (case a of Fin x \<Rightarrow> x < 0 | NegZero \<Rightarrow> True | PosInf \<Rightarrow> False | NegInf \<Rightarrow> True
                 | NaN \<Rightarrow> False)"

definition val :: "f32 \<Rightarrow> real" where
  "val a = (case a of Fin x \<Rightarrow> x | _ \<Rightarrow> 0)"

definition fmul :: "f32 \<Rightarrow> f32 \<Rightarrow> f32" where
  "fmul a b =
     (if a = NaN \<or> b = NaN then NaN
      else if is_inf a \<or> is_inf b
        then (if is_zero a \<or> is_zero b then NaN
              else if sign_bit a \<noteq> sign_bit b then NegInf else PosInf)
      else if val a * val b = 0
        then (if sign_bit a \<noteq> sign_bit b then NegZero else Fin 0)
      else Fin (val a * val b))"

definition fneg :: "f32 \<Rightarrow> f32" where
  "fneg a = (case a of Fin x \<Rightarrow> if x = 0 then NegZero else Fin (- x) | NegZero \<Rightarrow> Fin 0
             | PosInf \<Rightarrow> NegInf | NegInf \<Rightarrow> PosInf | NaN \<Rightarrow> NaN)"

definition fadd :: "f32 \<Rightarrow> f32 \<Rightarrow> f32" where
  "fadd a b =
     (if a = NaN \<or> b = NaN then NaN
      else if is_inf a then (if is_inf b \<and> b \<noteq> a then NaN else a)
      else if is_inf b then b
      else if val a + val b = 0
        then (if a = NegZero \<and> b = NegZero then NegZero else Fin 0)
      else Fin (val a + val b))"

instantiation f32 :: "{zero, one, plus, minus, uminus, times}"
begin

definition zero_f32 :: f32 where "zero_f32 = Fin 0"
definition one_f32 :: f32 where "one_f32 = Fin 1"
definition plus_f32 :: "f32 \<Rightarrow> f32 \<Rightarrow> f32" where "plus_f32 = fadd"
definition uminus_f32 :: "f32 \<Rightarrow> f32" where "uminus_f32 = fneg"
definition minus_f32 :: "f32 \<Rightarrow> f32 \<Rightarrow> f32" where "minus_f32 a b = fadd a (fneg b)"
definition times_f32 :: "f32 \<Rightarrow> f32 \<Rightarrow> f32" where "times_f32 = fmul"

instance ..

end

section \<open>Column-major indexing\<close>

lemma colmajor_inj:
  assumes "i < m" "i' < m" "m \<le> ld" "i + j * ld = i' + j' * ld"
  shows "j = j' \<and> i = (i'::nat)"
proof -
  have il: "i < ld" and il': "i' < ld" using assms by simp_all
  have "(i + j * ld) div ld = j" using il by simp
  moreover have "(i' + j' * ld) div ld = j'" using il' by simp
  ultimately have "j = j'" using assms(4) by simp
  then show ?thesis using assms(4) by simp
qed

lemma colmajor_distinct:
  assumes "m \<le> ld"
  shows "distinct (map (\<lambda>(j, i). i + j * ld) (List.product [0..<n] [0..<m]))"
proof -
  have "inj_on (\<lambda>(j, i). i + j * ld) (set (List.product [0..<n] [0..<m]))"
    by (auto simp: inj_on_def dest: colmajor_inj [OF _ _ assms])
  then show ?thesis by (simp add: distinct_map distinct_product)
qed

lemma colmajor_bound: "i < m \<Longrightarrow> j < n \<Longrightarrow> i + j * m < m * (n::nat)"
proof -
  assume i: "i < m" and j: "j < n"
  have "i + j * m < m + j * m" using i by simp
  also have "\<dots> = Suc j * m" by simp
  also have "\<dots> \<le> n * m" using j by (intro mult_le_mono1) simp
  finally show ?thesis by (simp add: mult.commute)
qed

lemma grid_covers:
  assumes "i < nb * bs"
  shows "(i div bs, i mod bs) \<in> set (List.product [0..<nb] [0..<bs])"
proof -
  have bs: "0 < bs" using assms by (cases bs) simp_all
  have "i div bs < nb" using assms bs by (simp add: less_mult_imp_div_less)
  then show ?thesis using bs by simp
qed

lemma numBlocks_cover: "n \<le> ((n + 256 - 1) div 256) * (256::nat)"
  by arith

section \<open>Loops that write one cell per step\<close>

lemma fold_cells_length:
  "length (fold (\<lambda>x C. C[f x := h x (C ! f x)]) xs C) = length C"
  by (induction xs arbitrary: C) simp_all

lemma fold_cells_other:
  "p \<notin> f ` set xs \<Longrightarrow> fold (\<lambda>x C. C[f x := h x (C ! f x)]) xs C ! p = C ! p"
  by (induction xs arbitrary: C) auto

lemma fold_cells_hit:
  "distinct (map f xs) \<Longrightarrow> x \<in> set xs \<Longrightarrow> f x < length C \<Longrightarrow>
   fold (\<lambda>x C. C[f x := h x (C ! f x)]) xs C ! f x = h x (C ! f x)"
proof (induction xs arbitrary: C)
  case Nil
  then show ?case by simp
next
  case (Cons y ys)
  show ?case
  proof (cases "x = y")
    case True
    have "f y \<notin> f ` set ys" using Cons.prems(1) by simp
    then show ?thesis using Cons.prems(3) True by (simp add: fold_cells_other)
  next
    case False
    then have xin: "x \<in> set ys" using Cons.prems(2) by simp
    have ne: "f y \<noteq> f x" using Cons.prems(1) xin by auto
    have "fold (\<lambda>x C. C[f x := h x (C ! f x)]) ys (C[f y := h y (C ! f y)]) ! f x
          = h x (C[f y := h y (C ! f y)] ! f x)"
      using Cons.prems xin by (intro Cons.IH) simp_all
    then show ?thesis using ne by simp
  qed
qed

lemma range_cells_nth:
  assumes "p < length C"
  shows "fold (\<lambda>k C. C[off + k := h k (C ! (off + k))]) [0..<n] C ! p =
     (if off \<le> p \<and> p < off + n then h (p - off) (C ! p) else C ! p)"
proof (cases "off \<le> p \<and> p < off + n")
  case True
  then have kin: "p - off \<in> set [0..<n]" and p: "off + (p - off) = p" by auto
  have d: "distinct (map (\<lambda>k. off + k) [0..<n])" by (simp add: distinct_map)
  have "fold (\<lambda>k C. C[off + k := h k (C ! (off + k))]) [0..<n] C ! (off + (p - off))
        = h (p - off) (C ! (off + (p - off)))"
    using kin assms p by (intro fold_cells_hit [OF d]) simp_all
  then show ?thesis using True by (simp add: p)
next
  case False
  then have "p \<notin> (\<lambda>k. off + k) ` set [0..<n]" by auto
  then have "fold (\<lambda>k C. C[off + k := h k (C ! (off + k))]) [0..<n] C ! p = C ! p"
    by (rule fold_cells_other)
  then show ?thesis by (simp only: False if_False)
qed

text \<open>A launch whose body rewrites the cell of its thread covers every cell of the grid.\<close>

lemma launch_cells:
  assumes "\<And>b t C. body b bs t C = C[t + b * bs := h (t + b * bs) (C ! (t + b * bs))]"
  shows "launch nb bs body C =
           fold (\<lambda>x C. C[(\<lambda>(j, i). i + j * bs) x :=
                         (\<lambda>x. h ((\<lambda>(j, i). i + j * bs) x)) x (C ! (\<lambda>(j, i). i + j * bs) x)])
             (List.product [0..<nb] [0..<bs]) C"
  unfolding launch_def
  by (rule arg_cong [where f = "\<lambda>g. fold g _ _"]) (auto simp: fun_eq_iff assms)

lemma launch_cells_length:
  assumes "\<And>b t C. body b bs t C = C[t + b * bs := h (t + b * bs) (C ! (t + b * bs))]"
  shows "length (launch nb bs body C) = length C"
  unfolding launch_cells [of body bs h, OF assms] by (rule fold_cells_length)

lemma launch_cells_nth:
  assumes body: "\<And>b t C. body b bs t C = C[t + b * bs := h (t + b * bs) (C ! (t + b * bs))]"
    and "i < nb * bs" "i < length C"
  shows "launch nb bs body C ! i = h i (C ! i)"
proof -
  let ?f = "\<lambda>(j, i). i + j * bs"
  let ?x = "(i div bs, i mod bs)"
  have fx: "?f ?x = i" by simp
  have xin: "?x \<in> set (List.product [0..<nb] [0..<bs])" using assms(2) by (rule grid_covers)
  have "launch nb bs body C ! ?f ?x = h (?f ?x) (C ! ?f ?x)"
    unfolding launch_cells [of body bs h, OF body]
    using xin assms(3)
    by (intro fold_cells_hit [OF colmajor_distinct]) (simp_all only: fx order_refl)
  then show ?thesis by (simp only: fx)
qed

section \<open>The device routines, cell by cell\<close>

lemma cudaMalloc_length: "length (cudaMalloc n garbage) = n"
  by (simp add: cudaMalloc_def)

lemma cudaMalloc_nth: "i < n \<Longrightarrow> cudaMalloc n garbage ! i = garbage i"
  by (simp add: cudaMalloc_def)

lemma cudaMemcpy_length: "length (cudaMemcpy dst off src n) = length dst"
  unfolding cudaMemcpy_def by (rule fold_cells_length [where h = "\<lambda>k _. src ! k"])

lemma cudaMemcpy_nth:
  "p < length dst \<Longrightarrow>
   cudaMemcpy dst off src n ! p = (if off \<le> p \<and> p < off + n then src ! (p - off) else dst ! p)"
  unfolding cudaMemcpy_def by (rule range_cells_nth [where h = "\<lambda>k _. src ! k"])

lemma cudaMemset0_length: "length (cudaMemset0 buf n) = length buf"
  unfolding cudaMemset0_def by (rule fold_cells_length [where h = "\<lambda>_ _. 0" and f = "\<lambda>k. k"])

lemma cudaMemset0_nth:
  "p < length buf \<Longrightarrow> cudaMemset0 buf n ! p = (if p < n then 0 else buf ! p)"
  unfolding cudaMemset0_def
  using range_cells_nth [where h = "\<lambda>_ _. 0" and off = 0 and C = buf and p = p and n = n]
  by simp

lemma cublasSaxpy_length: "length (cublasSaxpy n alpha x xoff y) = length y"
  unfolding cublasSaxpy_def
  by (rule fold_cells_length [where h = "\<lambda>k v. alpha * x ! (xoff + k) + v" and f = "\<lambda>k. k"])

lemma cublasSaxpy_nth:
  "p < length y \<Longrightarrow>
   cublasSaxpy n alpha x xoff y ! p = (if p < n then alpha * x ! (xoff + p) + y ! p else y ! p)"
  unfolding cublasSaxpy_def
  using range_cells_nth [where h = "\<lambda>k v. alpha * x ! (xoff + k) + v" and off = 0
      and C = y and p = p and n = n]
  by simp

text \<open>In exact arithmetic the accumulated inner product is the sum of the products.\<close>

lemma dot_acc_sum: "dot_acc k t = (\<Sum>l<k. (t l :: 'a::comm_monoid_add))"
proof -
  have "fold (\<lambda>l acc. acc + t l) [0..<k] a = a + (\<Sum>l<k. t l)" for a
    by (induction k) (simp_all add: add.assoc)
  then show ?thesis by (simp add: dot_acc_def)
qed

lemma cublasSgemm_cells:
  "\<not> gemm_invalid ta tb m n k lda ldb ldc \<Longrightarrow>
   cublasSgemm ta tb m n k alpha A lda B ldb beta C ldc =
     fold (\<lambda>x C. C[(\<lambda>(j, i). i + j * ldc) x :=
                   (\<lambda>(j, i) old.
                      if beta = 0
                      then alpha * dot_acc k (\<lambda>l. op_elem ta A lda i l * op_elem tb B ldb l j)
                      else alpha * dot_acc k (\<lambda>l. op_elem ta A lda i l * op_elem tb B ldb l j)
                           + beta * old) x
                     (C ! (\<lambda>(j, i). i + j * ldc) x)])
       (List.product [0..<n] [0..<m]) C"
  unfolding cublasSgemm_def
  by (simp only: if_False, rule arg_cong [where f = "\<lambda>g. fold g _ _"])
     (auto simp: fun_eq_iff Let_def)

lemma cublasSgemm_length:
  "length (cublasSgemm ta tb m n k alpha A lda B ldb beta C ldc) = length C"
proof (cases "gemm_invalid ta tb m n k lda ldb ldc")
  case True
  then show ?thesis by (simp add: cublasSgemm_def)
next
  case False
  show ?thesis unfolding cublasSgemm_cells [OF False] by (rule fold_cells_length)
qed

lemma cublasSgemm_other:
  "p \<notin> (\<lambda>(j, i). i + j * ldc) ` set (List.product [0..<n] [0..<m]) \<Longrightarrow>
   cublasSgemm ta tb m n k alpha A lda B ldb beta C ldc ! p = C ! p"
proof (cases "gemm_invalid ta tb m n k lda ldb ldc")
  case True
  then show ?thesis by (simp add: cublasSgemm_def)
next
  case False
  assume "p \<notin> (\<lambda>(j, i). i + j * ldc) ` set (List.product [0..<n] [0..<m])"
  then show ?thesis unfolding cublasSgemm_cells [OF False] by (rule fold_cells_other)
qed

text \<open>With \<open>beta = 0\<close> a cell of the block holds the scaled inner product, whatever it held.\<close>

lemma cublasSgemm_nth:
  assumes "i < m" "j < n" "i + j * ldc < length C"
    and ok: "\<not> gemm_invalid ta tb m n k lda ldb ldc"
  shows "cublasSgemm ta tb m n k alpha A lda B ldb 0 C ldc ! (i + j * ldc) =
           alpha * dot_acc k (\<lambda>l. op_elem ta A lda i l * op_elem tb B ldb l j)"
proof -
  let ?f = "\<lambda>(j, i). i + j * ldc"
  have xin: "(j, i) \<in> set (List.product [0..<n] [0..<m])" using assms by simp
  have le: "m \<le> ldc" using ok by (simp add: gemm_invalid_def max_def split: if_splits)
  have "cublasSgemm ta tb m n k alpha A lda B ldb 0 C ldc ! ?f (j, i) =
          alpha * dot_acc k (\<lambda>l. op_elem ta A lda i l * op_elem tb B ldb l j)"
    unfolding cublasSgemm_cells [OF ok]
    using xin assms(3)
    by (subst fold_cells_hit [OF colmajor_distinct [OF le]]) simp_all
  then show ?thesis by simp
qed

text \<open>So the result does not depend on the block's old contents, and a second call with
  the same operands changes nothing.\<close>

lemma cublasSgemm_overwrites:
  assumes "\<not> gemm_invalid ta tb m n k lda ldb ldc" "length C' = length C"
    and "\<And>p. p < length C \<Longrightarrow>
           p \<notin> (\<lambda>(j, i). i + j * ldc) ` set (List.product [0..<n] [0..<m]) \<Longrightarrow> C' ! p = C ! p"
  shows "cublasSgemm ta tb m n k alpha A lda B ldb 0 C' ldc =
         cublasSgemm ta tb m n k alpha A lda B ldb 0 C ldc"
proof (rule nth_equalityI)
  show "length (cublasSgemm ta tb m n k alpha A lda B ldb 0 C' ldc) =
        length (cublasSgemm ta tb m n k alpha A lda B ldb 0 C ldc)"
    by (simp add: cublasSgemm_length assms(2))
next
  fix p assume "p < length (cublasSgemm ta tb m n k alpha A lda B ldb 0 C' ldc)"
  then have p: "p < length C" "p < length C'" by (simp_all add: cublasSgemm_length assms(2))
  let ?f = "\<lambda>(j, i). i + j * ldc"
  let ?xs = "List.product [0..<n] [0..<m]"
  show "cublasSgemm ta tb m n k alpha A lda B ldb 0 C' ldc ! p =
        cublasSgemm ta tb m n k alpha A lda B ldb 0 C ldc ! p"
  proof (cases "p \<in> ?f ` set ?xs")
    case True
    then obtain j i where ji: "i < m" "j < n" "p = i + j * ldc" by auto
    then show ?thesis using p assms(1) by (simp add: cublasSgemm_nth)
  next
    case False
    then show ?thesis using assms(3) [OF p(1)] by (simp add: cublasSgemm_other)
  qed
qed

lemma cublasSgemm_idem:
  "cublasSgemm ta tb m n k alpha A lda B ldb 0
     (cublasSgemm ta tb m n k alpha A lda B ldb 0 C ldc) ldc =
   cublasSgemm ta tb m n k alpha A lda B ldb 0 C ldc"
proof (cases "gemm_invalid ta tb m n k lda ldb ldc")
  case True
  then show ?thesis by (simp add: cublasSgemm_def)
next
  case False
  then show ?thesis
    by (rule cublasSgemm_overwrites) (simp_all add: cublasSgemm_length cublasSgemm_other)
qed

text \<open>When the block is the whole buffer, the result does not depend on the buffer at all.\<close>

lemma cublasSgemm_fresh:
  assumes "\<not> gemm_invalid ta tb m n k lda ldb m" "length C = m * n" "length C' = m * n"
  shows "cublasSgemm ta tb m n k alpha A lda B ldb 0 C' m =
         cublasSgemm ta tb m n k alpha A lda B ldb 0 C m"
proof (rule cublasSgemm_overwrites [OF assms(1)])
  show "length C' = length C" using assms(2,3) by simp
next
  fix p assume "p < length C"
    and out: "p \<notin> (\<lambda>(j, i). i + j * m) ` set (List.product [0..<n] [0..<m])"
  then have "p < n * m" using assms(2) by (simp add: mult.commute)
  then have "(p div m, p mod m) \<in> set (List.product [0..<n] [0..<m])" by (rule grid_covers)
  then have "(\<lambda>(j, i). i + j * m) (p div m, p mod m)
               \<in> (\<lambda>(j, i). i + j * m) ` set (List.product [0..<n] [0..<m])"
    by (rule imageI)
  then have "p \<in> (\<lambda>(j, i). i + j * m) ` set (List.product [0..<n] [0..<m])" by simp
  then show "C' ! p = C ! p" using out by simp
qed

section \<open>The loops of forward and backward\<close>

lemma broadcast_length:
  "length (fold (\<lambda>i outp. cudaMemcpy outp (i * n) b n) [0..<batch] outp) = length outp"
  by (induction batch) (simp_all add: cudaMemcpy_length)

lemma broadcast_nth:
  assumes "k < n" "j < batch" "k + j * n < length outp"
  shows "fold (\<lambda>i outp. cudaMemcpy outp (i * n) b n) [0..<batch] outp ! (k + j * n) = b ! k"
  using assms(2)
proof (induction batch)
  case 0
  then show ?case by simp
next
  case (Suc batch)
  let ?prev = "fold (\<lambda>i outp. cudaMemcpy outp (i * n) b n) [0..<batch] outp"
  have len: "k + j * n < length ?prev" using assms(3) by (simp add: broadcast_length)
  show ?case
  proof (cases "j = batch")
    case True
    then show ?thesis using len assms(1) by (simp add: cudaMemcpy_nth)
  next
    case False
    then have jb: "j < batch" using Suc.prems by simp
    then have "Suc j \<le> batch" by simp
    then have "Suc j * n \<le> batch * n" by (rule mult_le_mono1)
    then have "\<not> batch * n \<le> k + j * n" using assms(1) by simp
    then show ?thesis using len Suc.IH [OF jb] by (simp add: cudaMemcpy_nth)
  qed
qed

lemma bias_grad_loop_length:
  "length (fold (\<lambda>i gb. cublasSaxpy n alpha x (i * n) gb) [0..<batch] gb) = length gb"
  by (induction batch) (simp_all add: cublasSaxpy_length)

lemma bias_grad_loop_nth:
  assumes "k < n" "k < length gb"
  shows "fold (\<lambda>i gb. cublasSaxpy n 1 x (i * n) gb) [0..<batch] gb ! k =
           add_columns n batch x k (gb ! k)"
proof (induction batch)
  case 0
  then show ?case by (simp add: add_columns_def)
next
  case (Suc batch)
  have "k < length (fold (\<lambda>i gb. cublasSaxpy n 1 x (i * n) gb) [0..<batch] gb)"
    using assms(2) by (simp add: bias_grad_loop_length)
  then show ?case using assms(1) Suc.IH
    by (simp add: cublasSaxpy_nth add_columns_def)
qed

text \<open>In exact arithmetic the accumulation is the old value plus the sum of the row.\<close>

lemma add_columns_sum:
  "add_columns n batch x k v = v + (\<Sum>j<batch. (x ! (k + j * n) :: 'a::semiring_1))"
  unfolding add_columns_def
  by (induction batch) (simp_all add: add.commute add.left_commute)

section \<open>forward, cell by cell\<close>

lemma forward_length: "length (forward L inp outp batch_size) = length outp"
  by (simp add: forward_def Let_def broadcast_length cublasSgemm_length)

lemma forward_nth:
  assumes "k < output_size L" "j < batch_size" "k + j * output_size L < length outp"
  shows "forward L inp outp batch_size ! (k + j * output_size L) = bias L ! k"
  using assms by (simp add: forward_def Let_def broadcast_nth cublasSgemm_length)

lemma forward_column:
  assumes "length (bias L) = output_size L" "length outp = output_size L * batch_size"
    "j < batch_size"
  shows "column (output_size L) (forward L inp outp batch_size) j = bias L"
proof (rule nth_equalityI)
  have "Suc j * output_size L \<le> batch_size * output_size L"
    using assms(3) by (intro mult_le_mono1) simp
  then have le: "j * output_size L + output_size L \<le> output_size L * batch_size"
    by (simp add: mult.commute)
  then show len: "length (column (output_size L) (forward L inp outp batch_size) j) = length (bias L)"
    using assms(1,2) by (simp add: column_def forward_length)
  fix k assume "k < length (column (output_size L) (forward L inp outp batch_size) j)"
  then have k: "k < output_size L" using len assms(1) by simp
  then have "k + j * output_size L < length outp" using le assms(2) by simp
  then show "column (output_size L) (forward L inp outp batch_size) j ! k = bias L ! k"
    using k assms(3) forward_nth [of k L j batch_size outp inp]
    by (simp add: column_def forward_length add.commute)
qed

section \<open>backward, cell by cell\<close>

lemma backward_frame:
  "weights (snd (backward L inp grad_output grad_input batch_size)) = weights L \<and>
   bias (snd (backward L inp grad_output grad_input batch_size)) = bias L \<and>
   input_size (snd (backward L inp grad_output grad_input batch_size)) = input_size L \<and>
   output_size (snd (backward L inp grad_output grad_input batch_size)) = output_size L"
  by (simp add: backward_def Let_def)

lemma backward_lengths:
  "length (fst (backward L inp grad_output grad_input batch_size)) = length grad_input \<and>
   length (grad_weights (snd (backward L inp grad_output grad_input batch_size)))
     = length (grad_weights L) \<and>
   length (grad_bias (snd (backward L inp grad_output grad_input batch_size)))
     = length (grad_bias L)"
  by (simp add: backward_def Let_def cublasSgemm_length bias_grad_loop_length)

lemma backward_grad_input_nth:
  assumes "i < input_size L" "j < batch_size" "i + j * input_size L < length grad_input"
    and "0 < output_size L"
  shows "fst (backward L inp grad_output grad_input batch_size) ! (i + j * input_size L) =
           1 * dot_acc (output_size L)
                 (\<lambda>l. weights L ! (i + l * input_size L) * grad_output ! (l + j * output_size L))"
  using assms
  by (simp add: backward_def Let_def cublasSgemm_nth gemm_invalid_def op_elem_def)

lemma backward_grad_weights_nth:
  assumes "i < input_size L" "j < output_size L" "i + j * input_size L < length (grad_weights L)"
  shows "grad_weights (snd (backward L inp grad_output grad_input batch_size))
           ! (i + j * input_size L) =
           1 * dot_acc batch_size
                 (\<lambda>l. inp ! (i + l * input_size L) * grad_output ! (j + l * output_size L))"
  using assms
  by (simp add: backward_def Let_def cublasSgemm_nth gemm_invalid_def op_elem_def)

lemma backward_grad_bias_nth:
  assumes "k < output_size L" "k < length (grad_bias L)"
  shows "grad_bias (snd (backward L inp grad_output grad_input batch_size)) ! k =
           add_columns (output_size L) batch_size grad_output k (grad_bias L ! k)"
  using assms by (simp add: backward_def Let_def bias_grad_loop_nth)

lemma backward_again:
  "fst (backward (snd (backward L inp grad_output grad_input batch_size)) inp grad_output
          (fst (backward L inp grad_output grad_input batch_size)) batch_size) =
     fst (backward L inp grad_output grad_input batch_size) \<and>
   grad_weights (snd (backward (snd (backward L inp grad_output grad_input batch_size)) inp
          grad_output (fst (backward L inp grad_output grad_input batch_size)) batch_size)) =
     grad_weights (snd (backward L inp grad_output grad_input batch_size))"
  by (simp add: backward_def Let_def cublasSgemm_idem)

lemma backward_fresh_buffer:
  assumes "0 < input_size L" "0 < output_size L"
    and "length grad_input = input_size L * batch_size"
    and "length grad_input' = input_size L * batch_size"
  shows "fst (backward (snd (backward L inp grad_output grad_input batch_size)) inp grad_output
            grad_input' batch_size) =
         fst (backward L inp grad_output grad_input batch_size)"
proof -
  have "cublasSgemm CUBLAS_OP_N CUBLAS_OP_N (input_size L) batch_size (output_size L) 1
          (weights L) (input_size L) grad_output (output_size L) 0 grad_input' (input_size L) =
        cublasSgemm CUBLAS_OP_N CUBLAS_OP_N (input_size L) batch_size (output_size L) 1
          (weights L) (input_size L) grad_output (output_size L) 0 grad_input (input_size L)"
    using assms by (intro cublasSgemm_fresh) (simp_all add: gemm_invalid_def)
  then show ?thesis by (simp add: backward_def Let_def)
qed

section \<open>update_params, cell by cell\<close>

lemma update_params_kernel_cell:
  "update_params_kernel grads sz lr b bs t params =
     params[t + b * bs := (\<lambda>i v. if i < sz then v - lr * grads ! i else v) (t + b * bs)
                            (params ! (t + b * bs))]"
  by (simp add: update_params_kernel_def Let_def add.commute)

lemma launch_update_length:
  "length (launch nb bs (update_params_kernel grads sz lr) params) = length params"
  by (rule launch_cells_length [where h = "\<lambda>i v. if i < sz then v - lr * grads ! i else v"])
     (rule update_params_kernel_cell)

lemma launch_update_nth:
  assumes "i < sz" "sz \<le> nb * bs" "i < length params"
  shows "launch nb bs (update_params_kernel grads sz lr) params ! i = params ! i - lr * grads ! i"
proof -
  have "i < nb * bs" using assms(1,2) by simp
  then have "launch nb bs (update_params_kernel grads sz lr) params ! i =
               (\<lambda>i v. if i < sz then v - lr * grads ! i else v) i (params ! i)"
    using assms(3)
    by (intro launch_cells_nth [where h = "\<lambda>i v. if i < sz then v - lr * grads ! i else v"])
       (rule update_params_kernel_cell)
  then show ?thesis using assms(1) by simp
qed

lemma update_params_lengths:
  "length (weights (update_params L lr)) = length (weights L) \<and>
   length (bias (update_params L lr)) = length (bias L)"
  by (simp add: update_params_def Let_def launch_update_length)

lemma update_params_weights_nth:
  assumes "i < input_size L * output_size L" "i < length (weights L)"
  shows "weights (update_params L lr) ! i = weights L ! i - lr * grad_weights L ! i"
  using assms
  by (simp add: update_params_def Let_def launch_update_nth numBlocks_cover)

lemma update_params_bias_nth:
  assumes "i < output_size L" "i < length (bias L)"
  shows "bias (update_params L lr) ! i = bias L ! i - lr * grad_bias L ! i"
  using assms
  by (simp add: update_params_def Let_def launch_update_nth numBlocks_cover)

section \<open>The initialisation kernels, cell by cell\<close>

lemma init_curand_states_cell:
  "init_curand_states ci seed n b bs t state =
     state[t + b * bs := (\<lambda>i v. if i < n then ci seed i 0 else v) (t + b * bs)
                           (state ! (t + b * bs))]"
  by (simp add: init_curand_states_def Let_def add.commute)

lemma launch_init_curand_states_length:
  "length (launch nb bs (init_curand_states ci seed n) state) = length state"
  by (rule launch_cells_length [where h = "\<lambda>i v. if i < n then ci seed i 0 else v"])
     (rule init_curand_states_cell)

lemma launch_init_curand_states_nth:
  assumes "i < n" "n \<le> nb * bs" "i < length state"
  shows "launch nb bs (init_curand_states ci seed n) state ! i = ci seed i 0"
proof -
  have "i < nb * bs" using assms(1,2) by simp
  then have "launch nb bs (init_curand_states ci seed n) state ! i =
               (\<lambda>i v. if i < n then ci seed i 0 else v) i (state ! i)"
    using assms(3)
    by (intro launch_cells_nth [where h = "\<lambda>i v. if i < n then ci seed i 0 else v"])
       (rule init_curand_states_cell)
  then show ?thesis using assms(1) by simp
qed

lemma init_weights_step:
  "init_weights cu sz sc b bs t (W, S) =
     (if t + b * bs < sz
      then (W[t + b * bs := (fst (cu (S ! (t + b * bs))) * 2 - 1) * sqrt (6 / real sz)],
            S[t + b * bs := snd (cu (S ! (t + b * bs)))])
      else (W, S))"
  by (simp add: init_weights_def Let_def case_prod_beta add.commute)

lemma fold_init_weights_length:
  "length (fst (fold (\<lambda>(b, t). init_weights cu sz sc b bs t) xs (W, S))) = length W"
  by (induction xs arbitrary: W S) (auto simp: init_weights_step)

lemma fold_init_weights_nth:
  assumes "distinct (map (\<lambda>(j, i). i + j * bs) xs)" "p < length W"
  shows "fst (fold (\<lambda>(b, t). init_weights cu sz sc b bs t) xs (W, S)) ! p =
           (if p \<in> (\<lambda>(j, i). i + j * bs) ` set xs \<and> p < sz
            then (fst (cu (S ! p)) * 2 - 1) * sqrt (6 / real sz) else W ! p)"
  using assms
proof (induction xs arbitrary: W S)
  case Nil
  then show ?case by simp
next
  case (Cons x xs)
  obtain b t where x: "x = (b, t)" by (cases x)
  have d: "distinct (map (\<lambda>(j, i). i + j * bs) xs)"
    and nin: "t + b * bs \<notin> (\<lambda>(j, i). i + j * bs) ` set xs"
    using Cons.prems(1) by (simp_all add: x)
  show ?case
  proof (cases "t + b * bs < sz")
    case True
    let ?W = "W[t + b * bs := (fst (cu (S ! (t + b * bs))) * 2 - 1) * sqrt (6 / real sz)]"
    let ?S = "S[t + b * bs := snd (cu (S ! (t + b * bs)))]"
    have "fst (fold (\<lambda>(b, t). init_weights cu sz sc b bs t) xs (?W, ?S)) ! p =
           (if p \<in> (\<lambda>(j, i). i + j * bs) ` set xs \<and> p < sz
            then (fst (cu (?S ! p)) * 2 - 1) * sqrt (6 / real sz) else ?W ! p)"
      using Cons.prems(2) by (intro Cons.IH [OF d]) simp
    then have ih: "fst (fold (\<lambda>(b, t). init_weights cu sz sc b bs t) (x # xs) (W, S)) ! p =
           (if p \<in> (\<lambda>(j, i). i + j * bs) ` set xs \<and> p < sz
            then (fst (cu (?S ! p)) * 2 - 1) * sqrt (6 / real sz) else ?W ! p)"
      using True by (simp add: x init_weights_step)
    show ?thesis
    proof (cases "p \<in> (\<lambda>(j, i). i + j * bs) ` set xs")
      case True
      then have "p \<noteq> t + b * bs" using nin by blast
      then show ?thesis using ih True by (simp add: x)
    next
      case False
      then show ?thesis using ih \<open>t + b * bs < sz\<close> Cons.prems(2) by (auto simp: x)
    qed
  next
    case False
    then show ?thesis using Cons.IH [OF d Cons.prems(2), of S] nin
      by (auto simp: x init_weights_step)
  qed
qed

lemma launch_init_weights_length:
  "length (fst (launch nb bs (init_weights cu sz sc) (W, S))) = length W"
  unfolding launch_def by (rule fold_init_weights_length)

lemma launch_init_weights_nth:
  assumes "p < sz" "sz \<le> nb * bs" "p < length W"
  shows "fst (launch nb bs (init_weights cu sz sc) (W, S)) ! p =
           (fst (cu (S ! p)) * 2 - 1) * sqrt (6 / real sz)"
proof -
  have "p < nb * bs" using assms(1,2) by simp
  then have "(p div bs, p mod bs) \<in> set (List.product [0..<nb] [0..<bs])" by (rule grid_covers)
  then have "(\<lambda>(j, i). i + j * bs) (p div bs, p mod bs)
               \<in> (\<lambda>(j, i). i + j * bs) ` set (List.product [0..<nb] [0..<bs])"
    by (rule imageI)
  then have "p \<in> (\<lambda>(j, i). i + j * bs) ` set (List.product [0..<nb] [0..<bs])" by simp
  then show ?thesis
    unfolding launch_def
    using assms(1,3) by (simp add: fold_init_weights_nth [OF colmajor_distinct])
qed

section \<open>The constructor, field by field\<close>

lemma FCLayer_new_fields:
  "input_size (FCLayer_new ci cu n_in n_out gw gb ggw ggb gst) = n_in"
  "output_size (FCLayer_new ci cu n_in n_out gw gb ggw ggb gst) = n_out"
  "grad_weights (FCLayer_new ci cu n_in n_out gw gb ggw ggb gst) = cudaMalloc (n_in * n_out) ggw"
  "grad_bias (FCLayer_new ci cu n_in n_out gw gb ggw ggb gst) = cudaMalloc n_out ggb"
  "bias (FCLayer_new ci cu n_in n_out gw gb ggw ggb gst) = cudaMemset0 (cudaMalloc n_out gb) n_out"
  "weights (FCLayer_new ci cu n_in n_out gw gb ggw ggb gst) =
     fst (launch ((n_in * n_out + 256 - 1) div 256) 256
            (init_weights cu (n_in * n_out) (sqrt (2 / real n_in)))
            (cudaMalloc (n_in * n_out) gw,
             launch ((n_in * n_out + 256 - 1) div 256) 256
               (init_curand_states ci 1234 (n_in * n_out)) (cudaMalloc (n_in * n_out) gst)))"
  by (simp_all add: FCLayer_new_def Let_def case_prod_beta)

lemma FCLayer_new_bias: "bias (FCLayer_new ci cu n_in n_out gw gb ggw ggb gst) = replicate n_out 0"
  by (rule nth_equalityI)
     (simp_all add: FCLayer_new_fields cudaMemset0_length cudaMemset0_nth cudaMalloc_length)

lemma FCLayer_new_weights_length:
  "length (weights (FCLayer_new ci cu n_in n_out gw gb ggw ggb gst)) = n_in * n_out"
  by (simp add: FCLayer_new_fields launch_init_weights_length cudaMalloc_length)

lemma FCLayer_new_weights_nth:
  assumes "i < n_in * n_out"
  shows "weights (FCLayer_new ci cu n_in n_out gw gb ggw ggb gst) ! i =
           (fst (cu (ci 1234 i 0)) * 2 - 1) * sqrt (6 / real (n_in * n_out))"
  using assms
  by (simp add: FCLayer_new_fields launch_init_weights_nth launch_init_curand_states_nth
        numBlocks_cover cudaMalloc_length)

lemma FCLayer_new_ok: "layer_ok (FCLayer_new ci cu n_in n_out gw gb ggw ggb gst)"
  by (simp add: layer_ok_def FCLayer_new_weights_length FCLayer_new_bias
        FCLayer_new_fields(1-4) cudaMalloc_length)

lemma uniform_weight_bound:
  assumes "0 \<le> u" "u \<le> 1"
  shows "\<bar>(u * 2 - 1) * sqrt (6 / real n)\<bar> \<le> sqrt (6 / real n)"
proof -
  have "\<bar>u * 2 - 1\<bar> \<le> 1" using assms by (simp add: abs_le_iff)
  then have "\<bar>u * 2 - 1\<bar> * sqrt (6 / real n) \<le> 1 * sqrt (6 / real n)"
    by (intro mult_right_mono) simp_all
  then show ?thesis by (simp add: abs_mult)
qed

section \<open>A zero step on floats\<close>

lemma f32_zero_step:
  assumes "is_zero lr" "is_finite g" "p \<noteq> NegZero"
  shows "p - lr * g = p"
  using assms
  by (cases p; cases g; cases lr)
     (auto simp: minus_f32_def times_f32_def fmul_def fadd_def fneg_def is_zero_def is_inf_def
        is_finite_def sign_bit_def val_def)

section \<open>The claims about forward\<close>

text \<open>
  C1. The claim: after \<open>forward\<close>, column \<open>j\<close> of \<open>Output\<close> is \<open>W\<^sup>T \<cdot> Input[:,j] + b\<close>. The code
  does not do that: the loop after the product copies the bias over each column, it does
  not add it. For one input, one output and a batch of one, with \<open>W = (2)\<close>, \<open>b = (3)\<close> and
  \<open>Input = (5)\<close>, the claimed output is \<open>2 * 5 + 3 = 13\<close> and \<open>forward\<close> leaves \<open>3\<close>.
\<close>

theorem forward_copies_bias_over_product:
  "forward \<lparr>input_size = 1, output_size = 1, weights = [2 :: real], bias = [3],
            grad_weights = [0], grad_bias = [0]\<rparr> [5] [0] 1 = [3] \<and>
   forward \<lparr>input_size = 1, output_size = 1, weights = [2 :: real], bias = [3],
            grad_weights = [0], grad_bias = [0]\<rparr> [5] [0] 1 \<noteq> [2 * 5 + 3]"
  by (simp add: forward_def cublasSgemm_def dot_acc_def op_elem_def cudaMemcpy_def Let_def)

text \<open>
  C8. With \<open>Input\<close> all zeros, every column of \<open>Output\<close> after \<open>forward\<close> is the bias vector
  itself, for every layer whose bias has \<open>output_size\<close> entries and every batch size. No
  law of the arithmetic is used: the equality is exact.
\<close>

theorem forward_zero_input:
  assumes "length (bias L) = output_size L"
    and "length outp = output_size L * batch_size"
  shows "\<forall>j<batch_size.
           column (output_size L)
             (forward L (replicate (input_size L * batch_size) 0) outp batch_size) j = bias L"
  using assms by (simp add: forward_column)

theorem forward_zero_input_witness:
  "length (bias \<lparr>input_size = 2, output_size = 2, weights = [1, 2, 3, 4 :: real],
                 bias = [10, 20], grad_weights = [0, 0, 0, 0], grad_bias = [0, 0]\<rparr>) = 2 \<and>
   length [7, 7, 7, 7 :: real] = 2 * 2 \<and>
   column 2 (forward \<lparr>input_size = 2, output_size = 2, weights = [1, 2, 3, 4 :: real],
                 bias = [10, 20], grad_weights = [0, 0, 0, 0], grad_bias = [0, 0]\<rparr>
               (replicate (2 * 2) 0) [7, 7, 7, 7] 2) 1 = [10, 20]"
proof -
  let ?L = "\<lparr>input_size = 2, output_size = 2, weights = [1, 2, 3, 4 :: real],
             bias = [10, 20], grad_weights = [0, 0, 0, 0], grad_bias = [0, 0]\<rparr>"
  have h1: "length (bias ?L) = output_size ?L" by simp
  have h2: "length [7, 7, 7, 7 :: real] = output_size ?L * 2" by simp
  show ?thesis
    using forward_zero_input [OF h1 h2, rule_format, of 1] by simp
qed

section \<open>The claims about backward\<close>

text \<open>
  C2. For a layer with buffers of the allocated sizes, at least one output and batch
  tensors of the stated shapes, \<open>backward\<close> leaves in cell \<open>(i, j)\<close> of \<open>GradInput\<close> the
  inner product of row \<open>i\<close> of \<open>W\<close> and column \<open>j\<close> of \<open>GradOutput\<close>, and in cell \<open>(i, j)\<close>
  of \<open>grad_weights\<close> the inner product of row \<open>i\<close> of \<open>Input\<close> and row \<open>j\<close> of
  \<open>GradOutput\<close>, both scaled by \<open>alpha = 1\<close> and both whatever the buffers held before
  (no transpose on \<open>W\<close> or \<open>GradOutput\<close> in the first, \<open>GradOutput\<close> transposed in the
  second). Entry \<open>k\<close> of \<open>grad_bias\<close> is its old value with row \<open>k\<close> of \<open>GradOutput\<close>
  added onto it, one column of the batch at a time. The buffers keep their sizes. The
  statement is about the operations as the code applies them: no law of the arithmetic
  is used, so it holds for rounded arithmetic as well.
\<close>

theorem backward_gradients:
  assumes "layer_ok L" and "0 < output_size L"
    and "length inp = input_size L * batch_size"
    and "length grad_output = output_size L * batch_size"
    and "length grad_input = input_size L * batch_size"
  shows "(\<forall>i<input_size L. \<forall>j<batch_size.
            fst (backward L inp grad_output grad_input batch_size) ! (i + j * input_size L) =
              1 * dot_acc (output_size L)
                    (\<lambda>l. weights L ! (i + l * input_size L)
                           * grad_output ! (l + j * output_size L))) \<and>
         (\<forall>i<input_size L. \<forall>j<output_size L.
            grad_weights (snd (backward L inp grad_output grad_input batch_size))
              ! (i + j * input_size L) =
              1 * dot_acc batch_size
                    (\<lambda>l. inp ! (i + l * input_size L)
                           * grad_output ! (j + l * output_size L))) \<and>
         (\<forall>k<output_size L.
            grad_bias (snd (backward L inp grad_output grad_input batch_size)) ! k =
              add_columns (output_size L) batch_size grad_output k (grad_bias L ! k)) \<and>
         length (fst (backward L inp grad_output grad_input batch_size))
           = input_size L * batch_size \<and>
         layer_ok (snd (backward L inp grad_output grad_input batch_size))"
proof (intro conjI allI impI)
  fix i j assume "i < input_size L" "j < batch_size"
  then show "fst (backward L inp grad_output grad_input batch_size) ! (i + j * input_size L) =
              1 * dot_acc (output_size L)
                    (\<lambda>l. weights L ! (i + l * input_size L)
                           * grad_output ! (l + j * output_size L))"
    using assms(2,5) by (simp add: backward_grad_input_nth colmajor_bound)
next
  fix i j assume "i < input_size L" "j < output_size L"
  then show "grad_weights (snd (backward L inp grad_output grad_input batch_size))
              ! (i + j * input_size L) =
              1 * dot_acc batch_size
                    (\<lambda>l. inp ! (i + l * input_size L)
                           * grad_output ! (j + l * output_size L))"
    using assms(1) by (simp add: backward_grad_weights_nth colmajor_bound layer_ok_def)
next
  fix k assume "k < output_size L"
  then show "grad_bias (snd (backward L inp grad_output grad_input batch_size)) ! k =
              add_columns (output_size L) batch_size grad_output k (grad_bias L ! k)"
    using assms(1) by (simp add: backward_grad_bias_nth layer_ok_def)
next
  show "length (fst (backward L inp grad_output grad_input batch_size))
          = input_size L * batch_size"
    using assms(5) by (simp add: backward_lengths)
  show "layer_ok (snd (backward L inp grad_output grad_input batch_size))"
    using assms(1) by (simp add: layer_ok_def backward_lengths backward_frame)
qed

theorem backward_gradients_witness:
  "layer_ok \<lparr>input_size = 2, output_size = 1, weights = [2, 3 :: int], bias = [0],
              grad_weights = [9, 9], grad_bias = [5]\<rparr> \<and>
   fst (backward \<lparr>input_size = 2, output_size = 1, weights = [2, 3 :: int], bias = [0],
              grad_weights = [9, 9], grad_bias = [5]\<rparr>
              [1, 2, 3, 4] [1, 1] [7, 7, 7, 7] 2) ! 3 = 3 \<and>
   grad_weights (snd (backward \<lparr>input_size = 2, output_size = 1, weights = [2, 3 :: int], bias = [0],
              grad_weights = [9, 9], grad_bias = [5]\<rparr>
              [1, 2, 3, 4] [1, 1] [7, 7, 7, 7] 2)) ! 1 = 6 \<and>
   grad_bias (snd (backward \<lparr>input_size = 2, output_size = 1, weights = [2, 3 :: int], bias = [0],
              grad_weights = [9, 9], grad_bias = [5]\<rparr>
              [1, 2, 3, 4] [1, 1] [7, 7, 7, 7] 2)) ! 0 = 7"
proof -
  let ?L = "\<lparr>input_size = 2, output_size = 1, weights = [2, 3 :: int], bias = [0],
              grad_weights = [9, 9], grad_bias = [5]\<rparr>"
  let ?r = "backward ?L [1, 2, 3, 4] [1, 1] [7, 7, 7, 7] 2"
  have ok: "layer_ok ?L" by (simp add: layer_ok_def)
  have pos: "0 < output_size ?L" by simp
  have l1: "length [1, 2, 3, 4 :: int] = input_size ?L * 2" by simp
  have l2: "length [1, 1 :: int] = output_size ?L * 2" by simp
  have l3: "length [7, 7, 7, 7 :: int] = input_size ?L * 2" by simp
  note t = backward_gradients [OF ok pos l1 l2 l3]
  have a: "fst ?r ! 3 = 3"
    using t [THEN conjunct1, rule_format, of 1 1]
    by (simp add: numeral_3_eq_3 dot_acc_def)
  have b: "grad_weights (snd ?r) ! 1 = 6"
    using t [THEN conjunct2, THEN conjunct1, rule_format, of 1 0]
    by (simp add: numeral_2_eq_2 dot_acc_def)
  have c: "grad_bias (snd ?r) ! 0 = 7"
    using t [THEN conjunct2, THEN conjunct2, THEN conjunct1, rule_format, of 0]
    by (simp add: numeral_2_eq_2 add_columns_def)
  show ?thesis using ok a b c by simp
qed

text \<open>
  C3. Two calls of \<open>backward\<close> in a row with the same arguments leave the same \<open>GradInput\<close>
  and the same \<open>grad_weights\<close> as the first call alone: the second call, run on the layer
  and the \<open>GradInput\<close> buffer the first left, changes neither, and for a layer with at
  least one input and one output it writes the same \<open>GradInput\<close> into any other buffer of
  the right size. Each entry of \<open>grad_bias\<close> has had the columns of \<open>GradOutput\<close> added onto
  it once after the first call and twice over after the second. No law of the arithmetic
  is used.
\<close>

theorem backward_twice:
  assumes "length (grad_bias L) = output_size L"
  shows "fst (backward (snd (backward L inp grad_output grad_input batch_size)) inp grad_output
               (fst (backward L inp grad_output grad_input batch_size)) batch_size) =
         fst (backward L inp grad_output grad_input batch_size) \<and>
         grad_weights (snd (backward (snd (backward L inp grad_output grad_input batch_size))
               inp grad_output
               (fst (backward L inp grad_output grad_input batch_size)) batch_size)) =
         grad_weights (snd (backward L inp grad_output grad_input batch_size)) \<and>
         (0 < input_size L \<and> 0 < output_size L \<and>
          length grad_input = input_size L * batch_size \<and>
          length other = input_size L * batch_size \<longrightarrow>
            fst (backward (snd (backward L inp grad_output grad_input batch_size)) inp
                   grad_output other batch_size) =
            fst (backward L inp grad_output grad_input batch_size)) \<and>
         (\<forall>k<output_size L.
            grad_bias (snd (backward L inp grad_output grad_input batch_size)) ! k =
              add_columns (output_size L) batch_size grad_output k (grad_bias L ! k) \<and>
            grad_bias (snd (backward (snd (backward L inp grad_output grad_input batch_size))
               inp grad_output
               (fst (backward L inp grad_output grad_input batch_size)) batch_size)) ! k =
              add_columns (output_size L) batch_size grad_output k
                (add_columns (output_size L) batch_size grad_output k (grad_bias L ! k)))"
proof (intro conjI allI impI)
  show "fst (backward (snd (backward L inp grad_output grad_input batch_size)) inp grad_output
               (fst (backward L inp grad_output grad_input batch_size)) batch_size) =
         fst (backward L inp grad_output grad_input batch_size)"
    by (simp add: backward_again)
  show "grad_weights (snd (backward (snd (backward L inp grad_output grad_input batch_size))
               inp grad_output
               (fst (backward L inp grad_output grad_input batch_size)) batch_size)) =
         grad_weights (snd (backward L inp grad_output grad_input batch_size))"
    by (simp add: backward_again)
next
  assume "0 < input_size L \<and> 0 < output_size L \<and>
          length grad_input = input_size L * batch_size \<and>
          length other = input_size L * batch_size"
  then show "fst (backward (snd (backward L inp grad_output grad_input batch_size)) inp
                   grad_output other batch_size) =
            fst (backward L inp grad_output grad_input batch_size)"
    by (intro backward_fresh_buffer) simp_all
next
  fix k assume k: "k < output_size L"
  let ?L1 = "snd (backward L inp grad_output grad_input batch_size)"
  show first: "grad_bias ?L1 ! k =
              add_columns (output_size L) batch_size grad_output k (grad_bias L ! k)"
    using assms k by (simp add: backward_grad_bias_nth)
  have "k < output_size ?L1" "k < length (grad_bias ?L1)"
    using assms k by (simp_all add: backward_frame backward_lengths)
  then have "grad_bias (snd (backward ?L1 inp grad_output
               (fst (backward L inp grad_output grad_input batch_size)) batch_size)) ! k =
             add_columns (output_size ?L1) batch_size grad_output k (grad_bias ?L1 ! k)"
    by (rule backward_grad_bias_nth)
  then show "grad_bias (snd (backward ?L1 inp grad_output
               (fst (backward L inp grad_output grad_input batch_size)) batch_size)) ! k =
              add_columns (output_size L) batch_size grad_output k
                (add_columns (output_size L) batch_size grad_output k (grad_bias L ! k))"
    by (simp add: first backward_frame)
qed

theorem backward_twice_witness:
  "length (grad_bias \<lparr>input_size = 2, output_size = 1, weights = [2, 3 :: int], bias = [0],
              grad_weights = [9, 9], grad_bias = [5]\<rparr>) = 1 \<and>
   fst (backward (snd (backward \<lparr>input_size = 2, output_size = 1, weights = [2, 3 :: int], bias = [0],
              grad_weights = [9, 9], grad_bias = [5]\<rparr>
              [1, 2, 3, 4] [1, 1] [7, 7, 7, 7] 2)) [1, 2, 3, 4] [1, 1]
          (fst (backward \<lparr>input_size = 2, output_size = 1, weights = [2, 3 :: int], bias = [0],
              grad_weights = [9, 9], grad_bias = [5]\<rparr>
              [1, 2, 3, 4] [1, 1] [7, 7, 7, 7] 2)) 2) =
   fst (backward \<lparr>input_size = 2, output_size = 1, weights = [2, 3 :: int], bias = [0],
              grad_weights = [9, 9], grad_bias = [5]\<rparr>
              [1, 2, 3, 4] [1, 1] [7, 7, 7, 7] 2) \<and>
   fst (backward (snd (backward \<lparr>input_size = 2, output_size = 1, weights = [2, 3 :: int], bias = [0],
              grad_weights = [9, 9], grad_bias = [5]\<rparr>
              [1, 2, 3, 4] [1, 1] [7, 7, 7, 7] 2)) [1, 2, 3, 4] [1, 1] [0, 0, 0, 0] 2) =
   fst (backward \<lparr>input_size = 2, output_size = 1, weights = [2, 3 :: int], bias = [0],
              grad_weights = [9, 9], grad_bias = [5]\<rparr>
              [1, 2, 3, 4] [1, 1] [7, 7, 7, 7] 2) \<and>
   grad_bias (snd (backward \<lparr>input_size = 2, output_size = 1, weights = [2, 3 :: int], bias = [0],
              grad_weights = [9, 9], grad_bias = [5]\<rparr>
              [1, 2, 3, 4] [1, 1] [7, 7, 7, 7] 2)) ! 0 = 7 \<and>
   grad_bias (snd (backward (snd (backward \<lparr>input_size = 2, output_size = 1, weights = [2, 3 :: int], bias = [0],
              grad_weights = [9, 9], grad_bias = [5]\<rparr>
              [1, 2, 3, 4] [1, 1] [7, 7, 7, 7] 2)) [1, 2, 3, 4] [1, 1]
          (fst (backward \<lparr>input_size = 2, output_size = 1, weights = [2, 3 :: int], bias = [0],
              grad_weights = [9, 9], grad_bias = [5]\<rparr>
              [1, 2, 3, 4] [1, 1] [7, 7, 7, 7] 2)) 2)) ! 0 = 9"
proof -
  let ?L = "\<lparr>input_size = 2, output_size = 1, weights = [2, 3 :: int], bias = [0],
              grad_weights = [9, 9], grad_bias = [5]\<rparr>"
  let ?r = "backward ?L [1, 2, 3, 4] [1, 1] [7, 7, 7, 7] 2"
  have h: "length (grad_bias ?L) = output_size ?L" by simp
  note t = backward_twice [OF h, of "[1, 2, 3, 4]" "[1, 1]" "[7, 7, 7, 7]" 2 "[0, 0, 0, 0]"]
  have a: "fst (backward (snd ?r) [1, 2, 3, 4] [1, 1] (fst ?r) 2) = fst ?r"
    using t by (rule conjunct1)
  have a': "fst (backward (snd ?r) [1, 2, 3, 4] [1, 1] [0, 0, 0, 0] 2) = fst ?r"
    using t [THEN conjunct2, THEN conjunct2, THEN conjunct1] by simp
  have b: "grad_bias (snd ?r) ! 0 = 7"
    using t [THEN conjunct2, THEN conjunct2, THEN conjunct2, rule_format, of 0, THEN conjunct1]
    by (simp add: numeral_2_eq_2 add_columns_def)
  have c: "grad_bias (snd (backward (snd ?r) [1, 2, 3, 4] [1, 1] (fst ?r) 2)) ! 0 = 9"
    using t [THEN conjunct2, THEN conjunct2, THEN conjunct2, rule_format, of 0, THEN conjunct2]
    by (simp add: numeral_2_eq_2 add_columns_def)
  show ?thesis using a a' b c by simp
qed

section \<open>The claims about update_params\<close>

text \<open>
  C6. For every layer with buffers of the allocated sizes and every learning rate \<open>lr\<close>,
  \<open>update_params\<close> sets weight \<open>i\<close> to \<open>weights[i] - lr * grad_weights[i]\<close> for every \<open>i\<close>
  below \<open>input_size * output_size\<close> and bias \<open>i\<close> to \<open>bias[i] - lr * grad_bias[i]\<close> for
  every \<open>i\<close> below \<open>output_size\<close>, the two buffers keeping their sizes. No law of the
  arithmetic is used.
\<close>

theorem update_params_elementwise:
  assumes "layer_ok L"
  shows "(\<forall>i < input_size L * output_size L.
            weights (update_params L lr) ! i = weights L ! i - lr * grad_weights L ! i) \<and>
         (\<forall>i < output_size L.
            bias (update_params L lr) ! i = bias L ! i - lr * grad_bias L ! i) \<and>
         length (weights (update_params L lr)) = input_size L * output_size L \<and>
         length (bias (update_params L lr)) = output_size L"
  using assms
  by (simp add: layer_ok_def update_params_weights_nth update_params_bias_nth
        update_params_lengths)

theorem update_params_elementwise_witness:
  "layer_ok \<lparr>input_size = 2, output_size = 1, weights = [10, 20 :: int], bias = [5],
              grad_weights = [1, 2], grad_bias = [3]\<rparr> \<and>
   weights (update_params \<lparr>input_size = 2, output_size = 1, weights = [10, 20 :: int], bias = [5],
              grad_weights = [1, 2], grad_bias = [3]\<rparr> 2) ! 0 = 8 \<and>
   weights (update_params \<lparr>input_size = 2, output_size = 1, weights = [10, 20 :: int], bias = [5],
              grad_weights = [1, 2], grad_bias = [3]\<rparr> 2) ! 1 = 16 \<and>
   bias (update_params \<lparr>input_size = 2, output_size = 1, weights = [10, 20 :: int], bias = [5],
              grad_weights = [1, 2], grad_bias = [3]\<rparr> 2) ! 0 = - 1"
proof -
  let ?L = "\<lparr>input_size = 2, output_size = 1, weights = [10, 20 :: int], bias = [5],
              grad_weights = [1, 2], grad_bias = [3]\<rparr>"
  have ok: "layer_ok ?L" by (simp add: layer_ok_def)
  note t = update_params_elementwise [OF ok, of 2]
  have a: "weights (update_params ?L 2) ! 0 = 8"
    using t [THEN conjunct1, rule_format, of 0] by simp
  have b: "weights (update_params ?L 2) ! 1 = 16"
    using t [THEN conjunct1, rule_format, of 1] by simp
  have c: "bias (update_params ?L 2) ! 0 = - 1"
    using t [THEN conjunct2, THEN conjunct1, rule_format, of 0] by simp
  show ?thesis using ok a b c by simp
qed

text \<open>
  C7, as the claim states it: \<open>update_params\<close> with learning rate \<open>0\<close> leaves the weights
  and the bias of every layer state as they were. On floats it does not: the kernel still
  computes \<open>p - 0 * g\<close>, and \<open>0 * g\<close> is NaN when the gradient \<open>g\<close> is NaN (or infinite).
\<close>

theorem update_params_zero_rate_nan_gradient:
  "weights (update_params \<lparr>input_size = 1, output_size = 1, weights = [Fin 1], bias = [Fin 1],
              grad_weights = [NaN], grad_bias = [Fin 0]\<rparr> 0) = [NaN] \<and>
   weights (update_params \<lparr>input_size = 1, output_size = 1, weights = [Fin 1], bias = [Fin 1],
              grad_weights = [NaN], grad_bias = [Fin 0]\<rparr> 0) \<noteq> [Fin 1]"
proof -
  let ?L = "\<lparr>input_size = 1, output_size = 1, weights = [Fin 1], bias = [Fin 1],
              grad_weights = [NaN], grad_bias = [Fin 0]\<rparr>"
  have "weights (update_params ?L 0) ! 0 = weights ?L ! 0 - 0 * grad_weights ?L ! 0"
    by (rule update_params_weights_nth) simp_all
  then have "weights (update_params ?L 0) ! 0 = NaN"
    by (simp add: minus_f32_def times_f32_def fmul_def fadd_def fneg_def)
  moreover have "length (weights (update_params ?L 0)) = 1"
    by (simp add: update_params_lengths)
  ultimately have "weights (update_params ?L 0) = [NaN]"
    by (cases "weights (update_params ?L 0)") simp_all
  then show ?thesis by simp
qed

text \<open>
  C7, amended: with learning rate zero (either zero of the format), \<open>update_params\<close>
  leaves the weights and the bias as they were when every entry of the two gradient
  buffers is finite and no weight or bias entry is the negative zero (which
  \<open>-0 - (-0) = +0\<close> would turn into the positive zero).
\<close>

theorem update_params_zero_rate:
  fixes L :: "f32 FCLayer"
  assumes "layer_ok L" and "is_zero lr"
    and "\<forall>g \<in> set (grad_weights L) \<union> set (grad_bias L). is_finite g"
    and "NegZero \<notin> set (weights L) \<union> set (bias L)"
  shows "weights (update_params L lr) = weights L \<and> bias (update_params L lr) = bias L"
proof
  show "weights (update_params L lr) = weights L"
  proof (rule nth_equalityI)
    show "length (weights (update_params L lr)) = length (weights L)"
      by (simp add: update_params_lengths)
    fix i assume "i < length (weights (update_params L lr))"
    then have i: "i < length (weights L)" by (simp add: update_params_lengths)
    then have i': "i < input_size L * output_size L" "i < length (grad_weights L)"
      using assms(1) by (simp_all add: layer_ok_def)
    have "is_finite (grad_weights L ! i)" using assms(3) i'(2) by simp
    moreover have "weights L ! i \<noteq> NegZero" using assms(4) i by (metis UnI1 nth_mem)
    ultimately have "weights L ! i - lr * grad_weights L ! i = weights L ! i"
      using assms(2) by (intro f32_zero_step)
    then show "weights (update_params L lr) ! i = weights L ! i"
      using i i' by (simp add: update_params_weights_nth)
  qed
  show "bias (update_params L lr) = bias L"
  proof (rule nth_equalityI)
    show "length (bias (update_params L lr)) = length (bias L)"
      by (simp add: update_params_lengths)
    fix i assume "i < length (bias (update_params L lr))"
    then have i: "i < length (bias L)" by (simp add: update_params_lengths)
    then have i': "i < output_size L" "i < length (grad_bias L)"
      using assms(1) by (simp_all add: layer_ok_def)
    have "is_finite (grad_bias L ! i)" using assms(3) i'(2) by simp
    moreover have "bias L ! i \<noteq> NegZero" using assms(4) i by (metis UnI2 nth_mem)
    ultimately have "bias L ! i - lr * grad_bias L ! i = bias L ! i"
      using assms(2) by (intro f32_zero_step)
    then show "bias (update_params L lr) ! i = bias L ! i"
      using i i' by (simp add: update_params_bias_nth)
  qed
qed

theorem update_params_zero_rate_witness:
  "layer_ok \<lparr>input_size = 2, output_size = 1, weights = [Fin 1, PosInf], bias = [Fin 0],
              grad_weights = [Fin (- 2), NegZero], grad_bias = [Fin 3]\<rparr> \<and>
   is_zero 0 \<and>
   is_finite (Fin (- 2)) \<and> is_finite NegZero \<and> is_finite (Fin 3) \<and>
   weights (update_params \<lparr>input_size = 2, output_size = 1, weights = [Fin 1, PosInf],
              bias = [Fin 0], grad_weights = [Fin (- 2), NegZero], grad_bias = [Fin 3]\<rparr> 0)
     = [Fin 1, PosInf] \<and>
   bias (update_params \<lparr>input_size = 2, output_size = 1, weights = [Fin 1, PosInf],
              bias = [Fin 0], grad_weights = [Fin (- 2), NegZero], grad_bias = [Fin 3]\<rparr> 0)
     = [Fin 0]"
proof -
  let ?L = "\<lparr>input_size = 2, output_size = 1, weights = [Fin 1, PosInf], bias = [Fin 0],
              grad_weights = [Fin (- 2), NegZero], grad_bias = [Fin 3]\<rparr>"
  have ok: "layer_ok ?L" by (simp add: layer_ok_def)
  have z: "is_zero 0" by (simp add: is_zero_def zero_f32_def)
  have f: "\<forall>g \<in> set (grad_weights ?L) \<union> set (grad_bias ?L). is_finite g"
    by (simp add: is_finite_def)
  have n: "NegZero \<notin> set (weights ?L) \<union> set (bias ?L)" by simp
  show ?thesis
    using update_params_zero_rate [OF ok z f n] ok z by (simp add: is_finite_def)
qed

text \<open>
  An infinite gradient does the same as NaN, since \<open>0 * \<infinity>\<close> is NaN.
\<close>

lemma update_params_zero_rate_infinite_gradient:
  "weights (update_params \<lparr>input_size = 1, output_size = 1, weights = [Fin 1], bias = [Fin 1],
              grad_weights = [PosInf], grad_bias = [Fin 0]\<rparr> 0) = [NaN]"
proof -
  let ?L = "\<lparr>input_size = 1, output_size = 1, weights = [Fin 1], bias = [Fin 1],
              grad_weights = [PosInf], grad_bias = [Fin 0]\<rparr>"
  have "weights (update_params ?L 0) ! 0 = weights ?L ! 0 - 0 * grad_weights ?L ! 0"
    by (rule update_params_weights_nth) simp_all
  then have "weights (update_params ?L 0) ! 0 = NaN"
    by (simp add: minus_f32_def times_f32_def zero_f32_def fmul_def fadd_def fneg_def
          is_inf_def is_zero_def)
  moreover have "length (weights (update_params ?L 0)) = 1"
    by (simp add: update_params_lengths)
  ultimately show ?thesis
    by (cases "weights (update_params ?L 0)") simp_all
qed

text \<open>
  The negative zero is left out of the amended statement for a reason: with a negative
  gradient, \<open>0 * g\<close> is the negative zero and \<open>-0 - (-0)\<close> is the positive zero.
\<close>

lemma update_params_zero_rate_negative_zero:
  "weights (update_params \<lparr>input_size = 1, output_size = 1, weights = [NegZero], bias = [Fin 1],
              grad_weights = [Fin (- 1)], grad_bias = [Fin 0]\<rparr> 0) = [Fin 0]"
proof -
  let ?L = "\<lparr>input_size = 1, output_size = 1, weights = [NegZero], bias = [Fin 1],
              grad_weights = [Fin (- 1)], grad_bias = [Fin 0]\<rparr>"
  have "weights (update_params ?L 0) ! 0 = weights ?L ! 0 - 0 * grad_weights ?L ! 0"
    by (rule update_params_weights_nth) simp_all
  then have "weights (update_params ?L 0) ! 0 = Fin 0"
    by (simp add: minus_f32_def times_f32_def zero_f32_def fmul_def fadd_def fneg_def
          is_inf_def is_zero_def sign_bit_def val_def)
  moreover have "length (weights (update_params ?L 0)) = 1"
    by (simp add: update_params_lengths)
  ultimately show ?thesis
    by (cases "weights (update_params ?L 0)") simp_all
qed

text \<open>
  C9. \<open>update_params\<close> leaves both gradient accumulators as they were, for every layer
  state and every learning rate: it reads \<open>grad_weights\<close> and \<open>grad_bias\<close> and writes
  neither.
\<close>

theorem update_params_keeps_gradients:
  "grad_weights (update_params L learning_rate) = grad_weights L \<and>
   grad_bias (update_params L learning_rate) = grad_bias L"
  by (simp add: update_params_def Let_def)

section \<open>The claims about construction\<close>

text \<open>
  C4. When \<open>curand_uniform\<close> returns numbers between 0 and 1, the constructor leaves
  \<open>input_size * output_size\<close> weights, weight \<open>i\<close> being
  \<open>(u * 2 - 1) * sqrt (6 / (input_size * output_size))\<close> for the first number \<open>u\<close> of the
  generator state of cell \<open>i\<close>, so of absolute value at most
  \<open>sqrt (6 / (input_size * output_size))\<close>; and the bias is \<open>output_size\<close> zeros. The
  numbers are reals: rounding is not modelled.
\<close>

theorem FCLayer_new_initial_values:
  assumes "\<forall>g. 0 \<le> fst (curand_uniform g) \<and> fst (curand_uniform g) \<le> 1"
  shows "length (weights (FCLayer_new curand_init curand_uniform n_in n_out gw gb ggw ggb gst))
           = n_in * n_out \<and>
         (\<forall>i < n_in * n_out.
            weights (FCLayer_new curand_init curand_uniform n_in n_out gw gb ggw ggb gst) ! i
              = (fst (curand_uniform (curand_init 1234 i 0)) * 2 - 1)
                  * sqrt (6 / real (n_in * n_out)) \<and>
            \<bar>weights (FCLayer_new curand_init curand_uniform n_in n_out gw gb ggw ggb gst) ! i\<bar>
              \<le> sqrt (6 / real (n_in * n_out))) \<and>
         bias (FCLayer_new curand_init curand_uniform n_in n_out gw gb ggw ggb gst)
           = replicate n_out 0"
proof (intro conjI allI impI)
  show "length (weights (FCLayer_new curand_init curand_uniform n_in n_out gw gb ggw ggb gst))
           = n_in * n_out"
    by (rule FCLayer_new_weights_length)
  show "bias (FCLayer_new curand_init curand_uniform n_in n_out gw gb ggw ggb gst)
           = replicate n_out 0"
    by (rule FCLayer_new_bias)
next
  fix i assume i: "i < n_in * n_out"
  then show w: "weights (FCLayer_new curand_init curand_uniform n_in n_out gw gb ggw ggb gst) ! i
              = (fst (curand_uniform (curand_init 1234 i 0)) * 2 - 1)
                  * sqrt (6 / real (n_in * n_out))"
    by (rule FCLayer_new_weights_nth)
  have "0 \<le> fst (curand_uniform (curand_init 1234 i 0))"
    and "fst (curand_uniform (curand_init 1234 i 0)) \<le> 1"
    using assms by simp_all
  then show "\<bar>weights (FCLayer_new curand_init curand_uniform n_in n_out gw gb ggw ggb gst) ! i\<bar>
              \<le> sqrt (6 / real (n_in * n_out))"
    unfolding w by (rule uniform_weight_bound)
qed

theorem FCLayer_new_initial_values_witness:
  "(\<forall>g::nat. 0 \<le> fst (1 / 4 :: real, Suc g) \<and> fst (1 / 4 :: real, Suc g) \<le> 1) \<and>
   weights (FCLayer_new (\<lambda>seed sequence offset. seed + sequence + offset)
              (\<lambda>g. (1 / 4, Suc g)) 2 3
              (\<lambda>_. 7) (\<lambda>_. 7) (\<lambda>_. 7) (\<lambda>_. 7) (\<lambda>_. 0)) ! 5 = - 1 / 2 \<and>
   \<bar>weights (FCLayer_new (\<lambda>seed sequence offset. seed + sequence + offset)
              (\<lambda>g. (1 / 4, Suc g)) 2 3
              (\<lambda>_. 7) (\<lambda>_. 7) (\<lambda>_. 7) (\<lambda>_. 7) (\<lambda>_. 0)) ! 5\<bar> \<le> 1 \<and>
   bias (FCLayer_new (\<lambda>seed sequence offset. seed + sequence + offset)
              (\<lambda>g. (1 / 4, Suc g)) 2 3
              (\<lambda>_. 7) (\<lambda>_. 7) (\<lambda>_. 7) (\<lambda>_. 7) (\<lambda>_. 0)) = [0, 0, 0]"
proof -
  have h: "\<forall>g::nat. 0 \<le> fst ((\<lambda>g. (1 / 4 :: real, Suc g)) g)
                   \<and> fst ((\<lambda>g. (1 / 4 :: real, Suc g)) g) \<le> 1"
    by simp
  note t = FCLayer_new_initial_values [OF h,
      of "\<lambda>seed sequence offset. seed + sequence + offset" 2 3
         "\<lambda>_. 7" "\<lambda>_. 7" "\<lambda>_. 7" "\<lambda>_. 7" "\<lambda>_. 0"]
  have a: "weights (FCLayer_new (\<lambda>seed sequence offset. seed + sequence + offset)
              (\<lambda>g. (1 / 4, Suc g)) 2 3
              (\<lambda>_. 7) (\<lambda>_. 7) (\<lambda>_. 7) (\<lambda>_. 7) (\<lambda>_. 0)) ! 5 = - 1 / 2 \<and>
     \<bar>weights (FCLayer_new (\<lambda>seed sequence offset. seed + sequence + offset)
              (\<lambda>g. (1 / 4, Suc g)) 2 3
              (\<lambda>_. 7) (\<lambda>_. 7) (\<lambda>_. 7) (\<lambda>_. 7) (\<lambda>_. 0)) ! 5\<bar> \<le> 1"
    using t [THEN conjunct2, THEN conjunct1, rule_format, of 5] by simp
  have b: "bias (FCLayer_new (\<lambda>seed sequence offset. seed + sequence + offset)
              (\<lambda>g. (1 / 4, Suc g)) 2 3
              (\<lambda>_. 7) (\<lambda>_. 7) (\<lambda>_. 7) (\<lambda>_. 7) (\<lambda>_. 0)) = [0, 0, 0]"
    using t [THEN conjunct2, THEN conjunct2] by (simp add: numeral_3_eq_3)
  show ?thesis using a b by simp
qed

text \<open>
  C5. The weights \<open>init_weights\<close> writes do not depend on its \<open>scale\<close> argument: a
  launch with one scale and a launch with another leave the same memory, and the weight of
  a cell \<open>p\<close> of the grid below \<open>size\<close> is \<open>(u * 2 - 1) * sqrt (6 / size)\<close> for the number
  \<open>u\<close> drawn from the state of that cell.
\<close>

theorem init_weights_ignores_scale:
  "launch nb bs (init_weights curand_uniform sz scale) mem =
     launch nb bs (init_weights curand_uniform sz scale') mem \<and>
   (p < sz \<and> sz \<le> nb * bs \<and> p < length W \<longrightarrow>
      fst (launch nb bs (init_weights curand_uniform sz scale) (W, S)) ! p =
        (fst (curand_uniform (S ! p)) * 2 - 1) * sqrt (6 / real sz))"
proof -
  have "init_weights curand_uniform sz scale = init_weights curand_uniform sz scale'"
    by (simp add: fun_eq_iff init_weights_def)
  then show ?thesis by (simp add: launch_init_weights_nth)
qed

theorem init_weights_ignores_scale_witness:
  "launch 1 2 (init_weights (\<lambda>g::nat. (1 / 4, Suc g)) 2 1) ([0, 0], [0, 1]) =
     launch 1 2 (init_weights (\<lambda>g::nat. (1 / 4, Suc g)) 2 5) ([0, 0], [0, 1]) \<and>
   fst (launch 1 2 (init_weights (\<lambda>g::nat. (1 / 4, Suc g)) 2 1) ([0, 0], [0, 1])) ! 1 =
     - sqrt 3 / 2"
proof -
  note t = init_weights_ignores_scale [of 1 2 "\<lambda>g::nat. (1 / 4, Suc g)" 2 1 _ 5 1 "[0, 0]" "[0, 1]"]
  have a: "launch 1 2 (init_weights (\<lambda>g::nat. (1 / 4, Suc g)) 2 1) ([0, 0], [0, 1]) =
     launch 1 2 (init_weights (\<lambda>g::nat. (1 / 4, Suc g)) 2 5) ([0, 0], [0, 1])"
    using t [of "([0, 0], [0, 1])"] by (rule conjunct1)
  have b: "fst (launch 1 2 (init_weights (\<lambda>g::nat. (1 / 4, Suc g)) 2 1) ([0, 0], [0, 1])) ! 1 =
     - sqrt 3 / 2"
    using t [of "([0, 0], [0, 1])", THEN conjunct2] by simp
  show ?thesis using a b by simp
qed

text \<open>
  C10. The constructor writes neither gradient buffer: after construction \<open>grad_weights\<close>
  and \<open>grad_bias\<close> hold what their allocations returned, whatever that is, and only the
  bias is zero-filled. For every layer whose \<open>grad_bias\<close> holds the contents \<open>g\<close> of a fresh
  allocation, of any scalar type and with any values, \<open>backward\<close> leaves in entry \<open>k\<close> of
  \<open>grad_bias\<close> the content \<open>g k\<close> with row \<open>k\<close> of \<open>GradOutput\<close> added onto it, one column of
  the batch at a time: the first call starts from the allocated contents, not from zero.
  No law of the arithmetic is used in this last part.
\<close>

theorem FCLayer_new_leaves_gradients:
  "grad_weights (FCLayer_new curand_init curand_uniform n_in n_out gw gb ggw ggb gst)
     = map ggw [0..<n_in * n_out] \<and>
   grad_bias (FCLayer_new curand_init curand_uniform n_in n_out gw gb ggw ggb gst)
     = map ggb [0..<n_out] \<and>
   bias (FCLayer_new curand_init curand_uniform n_in n_out gw gb ggw ggb gst)
     = replicate n_out 0 \<and>
   (grad_bias L = map g [0..<output_size L] \<longrightarrow>
      (\<forall>k<output_size L.
         grad_bias (snd (backward L inp grad_output grad_input batch_size)) ! k
           = add_columns (output_size L) batch_size grad_output k (g k)))"
proof (intro conjI impI allI)
  assume g: "grad_bias L = map g [0..<output_size L]"
  fix k assume k: "k < output_size L"
  then have "grad_bias (snd (backward L inp grad_output grad_input batch_size)) ! k
           = add_columns (output_size L) batch_size grad_output k (grad_bias L ! k)"
    using g by (intro backward_grad_bias_nth) simp_all
  then show "grad_bias (snd (backward L inp grad_output grad_input batch_size)) ! k
           = add_columns (output_size L) batch_size grad_output k (g k)"
    using g k by simp
qed (simp_all add: FCLayer_new_bias FCLayer_new_fields(1-4) cudaMalloc_def)

theorem FCLayer_new_leaves_gradients_witness:
  "grad_bias (FCLayer_new (\<lambda>seed sequence offset. seed + sequence + offset)
              (\<lambda>g::nat. (1 / 4, Suc g)) 2 1
              (\<lambda>_. 0) (\<lambda>_. 0) (\<lambda>_. 8) (\<lambda>_. 7) (\<lambda>_. 0)) = [7] \<and>
   grad_bias (snd (backward (FCLayer_new (\<lambda>seed sequence offset. seed + sequence + offset)
              (\<lambda>g::nat. (1 / 4, Suc g)) 2 1
              (\<lambda>_. 0) (\<lambda>_. 0) (\<lambda>_. 8) (\<lambda>_. 7) (\<lambda>_. 0))
            [1, 2, 3, 4] [1, 1] [0, 0, 0, 0] 2)) ! 0 = 9 \<and>
   grad_bias (snd (backward \<lparr>input_size = 2, output_size = 1, weights = [Fin 2, Fin 3], bias = [Fin 0],
              grad_weights = [NaN, NaN], grad_bias = [NaN]\<rparr>
            [Fin 1, Fin 2, Fin 3, Fin 4] [Fin 1, Fin 1] [Fin 0, Fin 0, Fin 0, Fin 0] 2)) ! 0
     = NaN"
proof -
  let ?N = "(FCLayer_new (\<lambda>seed sequence offset. seed + sequence + offset)
              (\<lambda>g::nat. (1 / 4, Suc g)) 2 1
              (\<lambda>_. 0) (\<lambda>_. 0) (\<lambda>_. 8) (\<lambda>_. 7) (\<lambda>_. 0))"
  let ?F = "\<lparr>input_size = 2, output_size = 1, weights = [Fin 2, Fin 3], bias = [Fin 0],
              grad_weights = [NaN, NaN], grad_bias = [NaN]\<rparr>"
  have a: "grad_bias ?N = [7]"
    using FCLayer_new_leaves_gradients [of "\<lambda>seed sequence offset. seed + sequence + offset"
      "\<lambda>g::nat. (1 / 4, Suc g)" 2 1 "\<lambda>_. 0" "\<lambda>_. 0" "\<lambda>_. 8" "\<lambda>_. 7" "\<lambda>_. 0",
      THEN conjunct2, THEN conjunct1]
    by simp
  have hN: "grad_bias ?N = map (\<lambda>_. 7) [0..<output_size ?N]"
    by (simp add: FCLayer_new_fields(2,4) cudaMalloc_def)
  have b: "grad_bias (snd (backward ?N [1, 2, 3, 4] [1, 1] [0, 0, 0, 0] 2)) ! 0 = 9"
    using FCLayer_new_leaves_gradients [where L = ?N and g = "\<lambda>_. 7" and inp = "[1, 2, 3, 4]"
      and grad_output = "[1, 1]" and grad_input = "[0, 0, 0, 0]" and batch_size = 2,
      THEN conjunct2, THEN conjunct2, THEN conjunct2, rule_format, OF hN, of 0]
    by (simp add: FCLayer_new_fields(2) numeral_2_eq_2 add_columns_def)
  have hF: "grad_bias ?F = map (\<lambda>_. NaN) [0..<output_size ?F]" by simp
  have c: "grad_bias (snd (backward ?F [Fin 1, Fin 2, Fin 3, Fin 4] [Fin 1, Fin 1]
               [Fin 0, Fin 0, Fin 0, Fin 0] 2)) ! 0 = NaN"
    using FCLayer_new_leaves_gradients [where L = ?F and g = "\<lambda>_. NaN"
      and inp = "[Fin 1, Fin 2, Fin 3, Fin 4]"
      and grad_output = "[Fin 1, Fin 1]" and grad_input = "[Fin 0, Fin 0, Fin 0, Fin 0]"
      and batch_size = 2,
      THEN conjunct2, THEN conjunct2, THEN conjunct2, rule_format, OF hF, of 0]
    by (simp add: numeral_2_eq_2 add_columns_def plus_f32_def fadd_def)
  show ?thesis using a b c by simp
qed

end
